theory Spec2Isabelle
  imports Complex_Main
begin

section \<open>Data model\<close>

text \<open>
  Numbers of the TypeScript source are modelled as exact reals: every statement below is
  about exact arithmetic, not about IEEE rounding, infinities or NaN. Field names that
  occur in several source types (\<open>x\<close>, \<open>y\<close>, \<open>width\<close>, \<open>height\<close>, \<open>damage\<close>) carry a
  short prefix, since a record field is a global constant here.
\<close>

record Vector2 =
  v_x :: real
  v_y :: real

record Rectangle =
  r_x :: real
  r_y :: real
  r_width :: real
  r_height :: real

text \<open>\<open>Hitbox\<close> (entities/Hitbox.ts): the poolable attack volume.\<close>

record Hitbox =
  active :: bool
  h_x :: real
  h_y :: real
  h_width :: real
  h_height :: real
  ownerId :: string
  h_damage :: real

record AttackResult =
  damage :: real
  knockback :: Vector2
  hitStun :: real

record InputFlags =
  in_left :: bool
  in_right :: bool
  in_up :: bool
  in_down :: bool
  in_attack :: bool
  in_moving :: bool

text \<open>
  The two strategy objects of a Character (\<open>fireModeStrategy\<close>, \<open>waterModeStrategy\<close>) and
  its four state objects (\<open>states.idle\<close>, \<open>states.move\<close>, \<open>states.attack\<close>, \<open>states.hit\<close>)
  are identified by tags; \<open>elementalMode\<close> and \<open>currentState\<close> are references to one of them.
\<close>

datatype Mode = FireMode | WaterMode

datatype StateName = Idle | Move | Attack | Hit

text \<open>The two event kinds a Character passes to \<open>notify\<close>.\<close>

datatype Event =
  HealthChangeEvent string real real real
  | ModeChangeEvent string string

text \<open>
  \<open>Character\<close> (entities/Character.ts). The per-activation fields of the Character's own
  \<open>AttackState\<close> object (\<open>attackTimer\<close>, \<open>hasHit\<close>) and \<open>HitState\<close> object (\<open>stunTimer\<close>,
  \<open>stunDuration\<close>) are fields of the record, since each Character constructs its own state
  objects. \<open>opponent\<close> is a reference into the store of Characters (\<open>None\<close> is \<open>null\<close>).
  \<open>notified\<close> is the sequence of events passed to \<open>notify\<close> so far, oldest first: the
  \<open>Subject\<close> base class (patterns/observer) lies outside the modelled files, and what its
  observers do with an event is outside the core. The read-only fields \<open>width\<close>, \<open>height\<close> and \<open>maxHealth\<close>
  are the constants they are initialised with; \<open>characterType\<close> and \<open>keyBindings\<close> are read
  by no operation modelled here.
\<close>

record Character =
  playerId :: string
  position :: Vector2
  velocity :: Vector2
  facingRight :: bool
  health :: real
  attackCooldownTimer :: real
  isAttacking :: bool
  isHitStunned :: bool
  lastHitStun :: real
  attackHitbox :: "Hitbox option"
  isGrounded :: bool
  elementalMode :: Mode
  currentState :: StateName
  attackTimer :: real
  hasHit :: bool
  stunTimer :: real
  stunDuration :: real
  inputFlags :: InputFlags
  opponent :: "nat option"
  notified :: "Event list"

text \<open>
  \<open>IElementalMode\<close>: the strategy interface. The two implementing classes
  (patterns/strategy) lie outside the modelled files, so a strategy is a parameter: a
  name, the two multipliers, and the \<open>defend\<close> and \<open>attack\<close> functions, which compute a
  value from their arguments.
\<close>

record IElementalMode =
  name :: string
  damageMultiplier :: real
  attackSpeedMultiplier :: real
  defend :: "Character \<Rightarrow> real \<Rightarrow> real"
  attack :: "Character \<Rightarrow> Character \<Rightarrow> AttackResult"

text \<open>
  The constants of constants/GameConfig.ts are parameters as well, together with the two
  strategies: every result below holds for all values of them, unless it says otherwise.
\<close>

record GameConfig =
  CHARACTER_WIDTH :: real
  CHARACTER_HEIGHT :: real
  GROUND_Y :: real
  GRAVITY :: real
  MAX_HEALTH :: real
  ATTACK_COOLDOWN :: real
  ATTACK_WIDTH :: real
  ATTACK_HEIGHT :: real
  CANVAS_WIDTH :: real
  ATTACK_DURATION :: real
  HIT_STUN_DURATION :: real
  CHARACTER_SPEED :: real
  JUMP_FORCE :: real
  strategy :: "Mode \<Rightarrow> IElementalMode"

text \<open>The store: every Character object lives at an address.\<close>

type_synonym World = "nat \<Rightarrow> Character"

section \<open>Hitbox\<close>

definition newHitbox :: Hitbox where
  "newHitbox = \<lparr>active = False, h_x = 0, h_y = 0, h_width = 0, h_height = 0,
                ownerId = [], h_damage = 0\<rparr>"

definition init :: "Hitbox \<Rightarrow> real \<Rightarrow> real \<Rightarrow> real \<Rightarrow> real \<Rightarrow> string \<Rightarrow> real \<Rightarrow> Hitbox" where
  "init h x y w ht oid d =
     h\<lparr>h_x := x, h_y := y, h_width := w, h_height := ht, ownerId := oid, h_damage := d\<rparr>"

definition getRect :: "Hitbox \<Rightarrow> Rectangle" where
  "getRect h = \<lparr>r_x = h_x h, r_y = h_y h, r_width = h_width h, r_height = h_height h\<rparr>"

definition intersects :: "Hitbox \<Rightarrow> Rectangle \<Rightarrow> bool" where
  "intersects h other =
     (h_x h < r_x other + r_width other \<and>
      h_x h + h_width h > r_x other \<and>
      h_y h < r_y other + r_height other \<and>
      h_y h + h_height h > r_y other)"

section \<open>Character\<close>

definition width :: "GameConfig \<Rightarrow> real" where
  "width cfg = CHARACTER_WIDTH cfg"

definition height :: "GameConfig \<Rightarrow> real" where
  "height cfg = CHARACTER_HEIGHT cfg"

definition maxHealth :: "GameConfig \<Rightarrow> real" where
  "maxHealth cfg = MAX_HEALTH cfg"

definition noInput :: InputFlags where
  "noInput = \<lparr>in_left = False, in_right = False, in_up = False, in_down = False,
              in_attack = False, in_moving = False\<rparr>"

definition notify :: "Character \<Rightarrow> Event \<Rightarrow> Character" where
  "notify c e = c\<lparr>notified := notified c @ [e]\<rparr>"

definition applyGravity :: "GameConfig \<Rightarrow> Character \<Rightarrow> real \<Rightarrow> Character" where
  "applyGravity cfg c deltaTime =
     (if \<not> isGrounded c
      then c\<lparr>velocity := (velocity c)\<lparr>v_y := v_y (velocity c) + GRAVITY cfg * deltaTime\<rparr>\<rparr>
      else c)"

definition checkGroundCollision :: "GameConfig \<Rightarrow> Character \<Rightarrow> Character" where
  "checkGroundCollision cfg c =
     (let groundLevel = GROUND_Y cfg - height cfg in
      if v_y (position c) \<ge> groundLevel
      then c\<lparr>position := (position c)\<lparr>v_y := groundLevel\<rparr>,
             velocity := (velocity c)\<lparr>v_y := 0\<rparr>,
             isGrounded := True\<rparr>
      else c\<lparr>isGrounded := False\<rparr>)"

definition checkBoundaries :: "GameConfig \<Rightarrow> Character \<Rightarrow> Character" where
  "checkBoundaries cfg c =
     (let c1 = (if v_x (position c) < 0
                then c\<lparr>position := (position c)\<lparr>v_x := 0\<rparr>,
                       velocity := (velocity c)\<lparr>v_x := 0\<rparr>\<rparr>
                else c)
      in if v_x (position c1) + width cfg > CANVAS_WIDTH cfg
         then c1\<lparr>position := (position c1)\<lparr>v_x := CANVAS_WIDTH cfg - width cfg\<rparr>,
                 velocity := (velocity c1)\<lparr>v_x := 0\<rparr>\<rparr>
         else c1)"

definition canAttack :: "Character \<Rightarrow> bool" where
  "canAttack c = (attackCooldownTimer c \<le> 0 \<and> \<not> isHitStunned c)"

text \<open>
  In the source a zero \<open>attackSpeedMultiplier\<close> gives an infinite cooldown; here the
  quotient is 0. No statement below depends on the value of the cooldown.
\<close>

definition startAttackCooldown :: "GameConfig \<Rightarrow> Character \<Rightarrow> Character" where
  "startAttackCooldown cfg c =
     c\<lparr>attackCooldownTimer :=
         ATTACK_COOLDOWN cfg / attackSpeedMultiplier (strategy cfg (elementalMode c))\<rparr>"

definition updateAttackHitbox :: "GameConfig \<Rightarrow> Character \<Rightarrow> Character" where
  "updateAttackHitbox cfg c =
     (case attackHitbox c of
        None \<Rightarrow> c
      | Some h \<Rightarrow>
          (let hitboxX = (if facingRight c then v_x (position c) + width cfg
                          else v_x (position c) - ATTACK_WIDTH cfg);
               hitboxY = v_y (position c) + height cfg / 2 - ATTACK_HEIGHT cfg / 2
           in c\<lparr>attackHitbox :=
                  Some ((init h hitboxX hitboxY (ATTACK_WIDTH cfg) (ATTACK_HEIGHT cfg)
                           (playerId c)
                           (damageMultiplier (strategy cfg (elementalMode c)) * 10))
                        \<lparr>active := True\<rparr>)\<rparr>))"

definition createAttackHitbox :: "GameConfig \<Rightarrow> Character \<Rightarrow> Character" where
  "createAttackHitbox cfg c = updateAttackHitbox cfg (c\<lparr>attackHitbox := Some newHitbox\<rparr>)"

definition removeAttackHitbox :: "Character \<Rightarrow> Character" where
  "removeAttackHitbox c =
     (case attackHitbox c of None \<Rightarrow> c | Some h \<Rightarrow> c\<lparr>attackHitbox := None\<rparr>)"

definition getHurtbox :: "GameConfig \<Rightarrow> Character \<Rightarrow> Rectangle" where
  "getHurtbox cfg c =
     \<lparr>r_x = v_x (position c), r_y = v_y (position c),
      r_width = width cfg, r_height = height cfg\<rparr>"

definition isDefeated :: "Character \<Rightarrow> bool" where
  "isDefeated c = (health c \<le> 0)"

section \<open>Behavior states\<close>

text \<open>\<open>enter\<close>, \<open>exit\<close> and \<open>canTransition\<close> of the four state classes.\<close>

definition IdleState_enter :: "Character \<Rightarrow> Character" where
  "IdleState_enter c = c\<lparr>velocity := (velocity c)\<lparr>v_x := 0\<rparr>\<rparr>"

definition IdleState_exit :: "Character \<Rightarrow> Character" where
  "IdleState_exit c = c"

definition IdleState_canTransition :: "Character \<Rightarrow> StateName option" where
  "IdleState_canTransition c =
     (if in_attack (inputFlags c) \<and> canAttack c then Some Attack
      else if in_moving (inputFlags c) then Some Move
      else None)"

definition MoveState_enter :: "Character \<Rightarrow> Character" where
  "MoveState_enter c = c"

definition MoveState_exit :: "Character \<Rightarrow> Character" where
  "MoveState_exit c = c\<lparr>velocity := (velocity c)\<lparr>v_x := 0\<rparr>\<rparr>"

definition MoveState_canTransition :: "Character \<Rightarrow> StateName option" where
  "MoveState_canTransition c =
     (if in_attack (inputFlags c) \<and> canAttack c then Some Attack
      else if \<not> in_moving (inputFlags c) then Some Idle
      else None)"

definition AttackState_enter :: "GameConfig \<Rightarrow> Character \<Rightarrow> Character" where
  "AttackState_enter cfg c =
     createAttackHitbox cfg
       (startAttackCooldown cfg (c\<lparr>attackTimer := 0, hasHit := False, isAttacking := True\<rparr>))"

definition AttackState_exit :: "Character \<Rightarrow> Character" where
  "AttackState_exit c = removeAttackHitbox (c\<lparr>isAttacking := False\<rparr>)"

definition AttackState_canTransition :: "GameConfig \<Rightarrow> Character \<Rightarrow> StateName option" where
  "AttackState_canTransition cfg c =
     (if attackTimer c \<ge> ATTACK_DURATION cfg
      then (if in_moving (inputFlags c) then Some Move else Some Idle)
      else None)"

text \<open>\<open>character.lastHitStun || HIT_STUN_DURATION\<close>: a zero \<open>lastHitStun\<close> is falsy.\<close>

definition HitState_enter :: "GameConfig \<Rightarrow> Character \<Rightarrow> Character" where
  "HitState_enter cfg c =
     c\<lparr>stunTimer := 0,
       stunDuration := (if lastHitStun c = 0 then HIT_STUN_DURATION cfg else lastHitStun c),
       isHitStunned := True\<rparr>"

definition HitState_exit :: "Character \<Rightarrow> Character" where
  "HitState_exit c = c\<lparr>isHitStunned := False, lastHitStun := 0\<rparr>"

definition HitState_canTransition :: "Character \<Rightarrow> StateName option" where
  "HitState_canTransition c =
     (if stunTimer c \<ge> stunDuration c then Some Idle else None)"

fun state_enter :: "GameConfig \<Rightarrow> StateName \<Rightarrow> Character \<Rightarrow> Character" where
  "state_enter cfg Idle c = IdleState_enter c"
| "state_enter cfg Move c = MoveState_enter c"
| "state_enter cfg Attack c = AttackState_enter cfg c"
| "state_enter cfg Hit c = HitState_enter cfg c"

fun state_exit :: "StateName \<Rightarrow> Character \<Rightarrow> Character" where
  "state_exit Idle c = IdleState_exit c"
| "state_exit Move c = MoveState_exit c"
| "state_exit Attack c = AttackState_exit c"
| "state_exit Hit c = HitState_exit c"

fun canTransition :: "GameConfig \<Rightarrow> StateName \<Rightarrow> Character \<Rightarrow> StateName option" where
  "canTransition cfg Idle c = IdleState_canTransition c"
| "canTransition cfg Move c = MoveState_canTransition c"
| "canTransition cfg Attack c = AttackState_canTransition cfg c"
| "canTransition cfg Hit c = HitState_canTransition c"

definition transitionTo :: "GameConfig \<Rightarrow> Character \<Rightarrow> StateName \<Rightarrow> Character" where
  "transitionTo cfg c newState =
     state_enter cfg newState ((state_exit (currentState c) c)\<lparr>currentState := newState\<rparr>)"

section \<open>Damage, mode switching, reset, construction\<close>

definition takeDamage :: "GameConfig \<Rightarrow> Character \<Rightarrow> AttackResult \<Rightarrow> Character" where
  "takeDamage cfg c attackResult =
     (let reducedDamage = defend (strategy cfg (elementalMode c)) c (damage attackResult);
          c1 = c\<lparr>health := max 0 (health c - reducedDamage)\<rparr>;
          c2 = c1\<lparr>velocity := (velocity c1)\<lparr>v_x := v_x (knockback attackResult),
                                            v_y := v_y (knockback attackResult)\<rparr>\<rparr>;
          c3 = c2\<lparr>lastHitStun := hitStun attackResult\<rparr>;
          c4 = transitionTo cfg c3 Hit
      in notify c4 (HealthChangeEvent (playerId c4) (health c4) (maxHealth cfg) reducedDamage))"

definition switchElementalMode :: "GameConfig \<Rightarrow> Character \<Rightarrow> Character" where
  "switchElementalMode cfg c =
     (if isAttacking c \<or> isHitStunned c then c
      else
        (let c1 = (if elementalMode c = FireMode then c\<lparr>elementalMode := WaterMode\<rparr>
                   else c\<lparr>elementalMode := FireMode\<rparr>)
         in notify c1 (ModeChangeEvent (playerId c1) (name (strategy cfg (elementalMode c1))))))"

definition reset :: "GameConfig \<Rightarrow> Character \<Rightarrow> Vector2 \<Rightarrow> Character" where
  "reset cfg c startPosition =
     (let c1 = c\<lparr>position := startPosition,
                 velocity := \<lparr>v_x = 0, v_y = 0\<rparr>,
                 health := MAX_HEALTH cfg,
                 isGrounded := True,
                 isAttacking := False,
                 isHitStunned := False,
                 attackCooldownTimer := 0,
                 attackHitbox := None\<rparr>;
          c2 = transitionTo cfg c1 Idle;
          c3 = c2\<lparr>inputFlags := noInput\<rparr>
      in notify c3 (HealthChangeEvent (playerId c3) (health c3) (maxHealth cfg) 0))"

text \<open>The constructor: field initialisers, then \<open>currentState = states.idle\<close> and its \<open>enter\<close>.\<close>

definition newCharacter :: "GameConfig \<Rightarrow> string \<Rightarrow> Vector2 \<Rightarrow> bool \<Rightarrow> Character" where
  "newCharacter cfg pid pos facing =
     IdleState_enter
       \<lparr>playerId = pid, position = pos, velocity = \<lparr>v_x = 0, v_y = 0\<rparr>,
        facingRight = facing, health = MAX_HEALTH cfg, attackCooldownTimer = 0,
        isAttacking = False, isHitStunned = False, lastHitStun = 0, attackHitbox = None,
        isGrounded = True, elementalMode = FireMode, currentState = Idle,
        attackTimer = 0, hasHit = False, stunTimer = 0,
        stunDuration = HIT_STUN_DURATION cfg, inputFlags = noInput, opponent = None,
        notified = []\<rparr>"

definition setOpponent :: "Character \<Rightarrow> nat \<Rightarrow> Character" where
  "setOpponent c b = c\<lparr>opponent := Some b\<rparr>"

section \<open>Hit checking and the per-frame update\<close>

text \<open>
  \<open>checkAttackHit\<close> of the Character at address \<open>a\<close>: the only operation of a Character
  that writes to another one. It returns the store and the boolean the source returns.
\<close>

definition checkAttackHit :: "GameConfig \<Rightarrow> World \<Rightarrow> nat \<Rightarrow> World \<times> bool" where
  "checkAttackHit cfg w a =
     (case attackHitbox (w a) of
        None \<Rightarrow> (w, False)
      | Some hb \<Rightarrow>
          (case opponent (w a) of
             None \<Rightarrow> (w, False)
           | Some b \<Rightarrow>
               (let opponentRect = getHurtbox cfg (w b) in
                if intersects hb opponentRect
                then (let result = attack (strategy cfg (elementalMode (w a))) (w a) (w b)
                      in (w(b := takeDamage cfg (w b) result), True))
                else (w, False))))"

definition IdleState_update :: "GameConfig \<Rightarrow> Character \<Rightarrow> real \<Rightarrow> Character" where
  "IdleState_update cfg c deltaTime = checkGroundCollision cfg (applyGravity cfg c deltaTime)"

definition MoveState_update :: "GameConfig \<Rightarrow> Character \<Rightarrow> real \<Rightarrow> Character" where
  "MoveState_update cfg c deltaTime =
     (let c1 = (if in_left (inputFlags c) then c\<lparr>facingRight := False\<rparr> else c);
          moveX1 = (if in_left (inputFlags c) then 0 - 1 else (0::real));
          c2 = (if in_right (inputFlags c1) then c1\<lparr>facingRight := True\<rparr> else c1);
          moveX = (if in_right (inputFlags c1) then moveX1 + 1 else moveX1);
          c3 = c2\<lparr>velocity := (velocity c2)\<lparr>v_x := moveX * CHARACTER_SPEED cfg\<rparr>\<rparr>;
          c4 = (if in_up (inputFlags c3) \<and> isGrounded c3
                then c3\<lparr>velocity := (velocity c3)\<lparr>v_y := JUMP_FORCE cfg\<rparr>, isGrounded := False\<rparr>
                else c3);
          c5 = applyGravity cfg c4 deltaTime;
          c6 = c5\<lparr>position := (position c5)\<lparr>v_x := v_x (position c5) + v_x (velocity c5) * deltaTime\<rparr>\<rparr>;
          c7 = c6\<lparr>position := (position c6)\<lparr>v_y := v_y (position c6) + v_y (velocity c6) * deltaTime\<rparr>\<rparr>
      in checkBoundaries cfg (checkGroundCollision cfg c7))"

definition HitState_update :: "GameConfig \<Rightarrow> Character \<Rightarrow> real \<Rightarrow> Character" where
  "HitState_update cfg c deltaTime =
     (let c1 = c\<lparr>stunTimer := stunTimer c + deltaTime * 1000\<rparr>;
          c2 = c1\<lparr>velocity := (velocity c1)\<lparr>v_x := v_x (velocity c1) * (9 / 10)\<rparr>\<rparr>;
          c3 = applyGravity cfg c2 deltaTime;
          c4 = c3\<lparr>position := (position c3)\<lparr>v_x := v_x (position c3) + v_x (velocity c3) * deltaTime\<rparr>\<rparr>;
          c5 = c4\<lparr>position := (position c4)\<lparr>v_y := v_y (position c4) + v_y (velocity c4) * deltaTime\<rparr>\<rparr>
      in checkBoundaries cfg (checkGroundCollision cfg c5))"

text \<open>
  \<open>AttackState.update\<close>: the part on the Character itself, then the hit check on the
  store, then the write of \<open>hasHit\<close> to the Character as the store has it by then.
\<close>

definition AttackState_move :: "GameConfig \<Rightarrow> Character \<Rightarrow> real \<Rightarrow> Character" where
  "AttackState_move cfg c deltaTime =
     (let c1 = c\<lparr>attackTimer := attackTimer c + deltaTime * 1000\<rparr>;
          c2 = applyGravity cfg c1 deltaTime;
          c3 = c2\<lparr>position := (position c2)\<lparr>v_y := v_y (position c2) + v_y (velocity c2) * deltaTime\<rparr>\<rparr>;
          c4 = checkGroundCollision cfg c3
      in updateAttackHitbox cfg c4)"

definition AttackState_update :: "GameConfig \<Rightarrow> World \<Rightarrow> nat \<Rightarrow> real \<Rightarrow> World" where
  "AttackState_update cfg w a deltaTime =
     (let w1 = w(a := AttackState_move cfg (w a) deltaTime) in
      if \<not> hasHit (w1 a)
      then (case checkAttackHit cfg w1 a of
              (w2, hit) \<Rightarrow> if hit then w2(a := (w2 a)\<lparr>hasHit := True\<rparr>) else w2)
      else w1)"

fun state_update :: "GameConfig \<Rightarrow> StateName \<Rightarrow> World \<Rightarrow> nat \<Rightarrow> real \<Rightarrow> World" where
  "state_update cfg Idle w a deltaTime = w(a := IdleState_update cfg (w a) deltaTime)"
| "state_update cfg Move w a deltaTime = w(a := MoveState_update cfg (w a) deltaTime)"
| "state_update cfg Attack w a deltaTime = AttackState_update cfg w a deltaTime"
| "state_update cfg Hit w a deltaTime = w(a := HitState_update cfg (w a) deltaTime)"

definition tickCooldown :: "Character \<Rightarrow> real \<Rightarrow> Character" where
  "tickCooldown c deltaTime =
     (if attackCooldownTimer c > 0
      then c\<lparr>attackCooldownTimer := attackCooldownTimer c - deltaTime * 1000\<rparr>
      else c)"

text \<open>The last step of \<open>update\<close>: ask the current state for a transition and make it.\<close>

definition checkTransitions :: "GameConfig \<Rightarrow> Character \<Rightarrow> Character" where
  "checkTransitions cfg c =
     (case canTransition cfg (currentState c) c of
        None \<Rightarrow> c
      | Some newState \<Rightarrow> transitionTo cfg c newState)"

definition update :: "GameConfig \<Rightarrow> World \<Rightarrow> nat \<Rightarrow> real \<Rightarrow> World" where
  "update cfg w a deltaTime =
     (let w1 = w(a := tickCooldown (w a) deltaTime);
          w2 = state_update cfg (currentState (w1 a)) w1 a deltaTime
      in w2(a := checkTransitions cfg (w2 a)))"

section \<open>Collision system\<close>

definition checkAABB :: "Rectangle \<Rightarrow> Rectangle \<Rightarrow> bool" where
  "checkAABB a b =
     (r_x a < r_x b + r_width b \<and>
      r_x a + r_width a > r_x b \<and>
      r_y a < r_y b + r_height b \<and>
      r_y a + r_height a > r_y b)"

definition checkCharacterCollision :: "GameConfig \<Rightarrow> Character \<Rightarrow> Character \<Rightarrow> bool" where
  "checkCharacterCollision cfg a b = checkAABB (getHurtbox cfg a) (getHurtbox cfg b)"

definition shiftX :: "Character \<Rightarrow> real \<Rightarrow> Character" where
  "shiftX c d = c\<lparr>position := (position c)\<lparr>v_x := v_x (position c) + d\<rparr>\<rparr>"

text \<open>
  \<open>resolveCharacterCollision(a, b)\<close> on the Characters at addresses \<open>a\<close> and \<open>b\<close>: the
  comparison of the two x positions is made once, then \<open>a\<close> is written, then \<open>b\<close>.
\<close>

definition resolveCharacterCollision :: "GameConfig \<Rightarrow> World \<Rightarrow> nat \<Rightarrow> nat \<Rightarrow> World" where
  "resolveCharacterCollision cfg w a b =
     (if \<not> checkCharacterCollision cfg (w a) (w b) then w
      else
        (let aBox = getHurtbox cfg (w a);
             bBox = getHurtbox cfg (w b);
             overlapX = min (r_x aBox + r_width aBox - r_x bBox)
                            (r_x bBox + r_width bBox - r_x aBox);
             pushAmount = overlapX / 2
         in if v_x (position (w a)) < v_x (position (w b))
            then (let w1 = w(a := shiftX (w a) (- pushAmount))
                  in w1(b := shiftX (w1 b) pushAmount))
            else (let w1 = w(a := shiftX (w a) pushAmount)
                  in w1(b := shiftX (w1 b) (- pushAmount)))))"

definition getCollisionPoint :: "Rectangle \<Rightarrow> Rectangle \<Rightarrow> Vector2 option" where
  "getCollisionPoint a b =
     (if \<not> checkAABB a b then None
      else
        (let overlapX = max (r_x a) (r_x b);
             overlapY = max (r_y a) (r_y b);
             overlapRight = min (r_x a + r_width a) (r_x b + r_width b);
             overlapBottom = min (r_y a + r_height a) (r_y b + r_height b)
         in Some \<lparr>v_x = (overlapX + overlapRight) / 2, v_y = (overlapY + overlapBottom) / 2\<rparr>))"

section \<open>Commands\<close>

text \<open>The commands of patterns/command/Command.ts, which the input handler executes.\<close>

datatype Direction = DirLeft | DirRight | DirUp | DirDown

definition MoveCommand_execute :: "Direction \<Rightarrow> bool \<Rightarrow> Character \<Rightarrow> Character" where
  "MoveCommand_execute direction pressed c =
     (let f = inputFlags c;
          f1 = (case direction of
                  DirLeft \<Rightarrow> f\<lparr>in_left := pressed\<rparr>
                | DirRight \<Rightarrow> f\<lparr>in_right := pressed\<rparr>
                | DirUp \<Rightarrow> f\<lparr>in_up := pressed\<rparr>
                | DirDown \<Rightarrow> f\<lparr>in_down := pressed\<rparr>)
      in c\<lparr>inputFlags := f1\<lparr>in_moving := (in_left f1 \<or> in_right f1 \<or> in_up f1 \<or> in_down f1)\<rparr>\<rparr>)"

definition AttackCommand_execute :: "bool \<Rightarrow> Character \<Rightarrow> Character" where
  "AttackCommand_execute pressed c = c\<lparr>inputFlags := (inputFlags c)\<lparr>in_attack := pressed\<rparr>\<rparr>"

definition SwitchModeCommand_execute :: "GameConfig \<Rightarrow> Character \<Rightarrow> Character" where
  "SwitchModeCommand_execute cfg c = switchElementalMode cfg c"

section \<open>Sequences of operations\<close>

text \<open>
  What a driver can do to the Characters of a store between two observation points: the
  public operations of a Character, the commands, and the body-collision resolution.
\<close>

datatype Op =
  Update nat real
  | TakeDamage nat AttackResult
  | SwitchElementalMode nat
  | Reset nat Vector2
  | SetOpponent nat nat
  | MoveCommand Direction bool nat
  | AttackCommand bool nat
  | ResolveCharacterCollision nat nat

fun apply_op :: "GameConfig \<Rightarrow> World \<Rightarrow> Op \<Rightarrow> World" where
  "apply_op cfg w (Update a deltaTime) = update cfg w a deltaTime"
| "apply_op cfg w (TakeDamage a r) = w(a := takeDamage cfg (w a) r)"
| "apply_op cfg w (SwitchElementalMode a) = w(a := switchElementalMode cfg (w a))"
| "apply_op cfg w (Reset a startPosition) = w(a := reset cfg (w a) startPosition)"
| "apply_op cfg w (SetOpponent a b) = w(a := setOpponent (w a) b)"
| "apply_op cfg w (MoveCommand direction pressed a) =
     w(a := MoveCommand_execute direction pressed (w a))"
| "apply_op cfg w (AttackCommand pressed a) = w(a := AttackCommand_execute pressed (w a))"
| "apply_op cfg w (ResolveCharacterCollision a b) = resolveCharacterCollision cfg w a b"

fun run :: "GameConfig \<Rightarrow> World \<Rightarrow> Op list \<Rightarrow> World" where
  "run cfg w [] = w"
| "run cfg w (p # ps) = run cfg (apply_op cfg w p) ps"

text \<open>
  The operations of the frame loop and of the input handler: everything but a direct
  \<open>takeDamage\<close>, \<open>reset\<close> or \<open>setOpponent\<close> call.
\<close>

fun frameOp :: "Op \<Rightarrow> bool" where
  "frameOp (Update a deltaTime) = True"
| "frameOp (TakeDamage a r) = False"
| "frameOp (SwitchElementalMode a) = True"
| "frameOp (Reset a startPosition) = False"
| "frameOp (SetOpponent a b) = False"
| "frameOp (MoveCommand direction pressed a) = True"
| "frameOp (AttackCommand pressed a) = True"
| "frameOp (ResolveCharacterCollision a b) = True"

fun isResolve :: "Op \<Rightarrow> bool" where
  "isResolve (ResolveCharacterCollision a b) = True"
| "isResolve p = False"

text \<open>
  One Attack activation of the Character at \<open>a\<close>: the operations are applied for as long
  as \<open>a\<close> is in the Attack state at the observation point before each of them. A Character
  that leaves Attack is in another state at the next observation point, so a later attack
  is another activation.
\<close>

fun activation :: "GameConfig \<Rightarrow> World \<Rightarrow> nat \<Rightarrow> Op list \<Rightarrow> World" where
  "activation cfg w a [] = w"
| "activation cfg w a (p # ps) =
     (if currentState (w a) = Attack then activation cfg (apply_op cfg w p) a ps else w)"

text \<open>
  Every \<open>takeDamage\<close> call passes one health-change event to \<open>notify\<close>; the number of such
  events of a Character counts the calls (\<open>reset\<close> is the only other source of one).
\<close>

fun isHealthChange :: "Event \<Rightarrow> bool" where
  "isHealthChange (HealthChangeEvent pid currentHealth maxH dmg) = True"
| "isHealthChange (ModeChangeEvent pid newMode) = False"

definition healthEvents :: "Character \<Rightarrow> nat" where
  "healthEvents c = length (filter isHealthChange (notified c))"

definition healthInRange :: "GameConfig \<Rightarrow> Character \<Rightarrow> bool" where
  "healthInRange cfg c = (0 \<le> health c \<and> health c \<le> maxHealth cfg)"

definition hitboxMatchesState :: "Character \<Rightarrow> bool" where
  "hitboxMatchesState c = ((attackHitbox c \<noteq> None) = (currentState c = Attack))"

section \<open>An example configuration\<close>

text \<open>Concrete constants, strategies and Characters, on which the results below are run.\<close>

definition exampleStrategy :: "Mode \<Rightarrow> IElementalMode" where
  "exampleStrategy m =
     (case m of
        FireMode \<Rightarrow>
          \<lparr>name = ''Fire'', damageMultiplier = 3 / 2, attackSpeedMultiplier = 5 / 4,
           defend = (\<lambda>c d. max 0 (d * (9 / 10))),
           attack = (\<lambda>c opp. \<lparr>damage = 15, knockback = \<lparr>v_x = 300, v_y = - 150\<rparr>,
                               hitStun = 400\<rparr>)\<rparr>
      | WaterMode \<Rightarrow>
          \<lparr>name = ''Water'', damageMultiplier = 1, attackSpeedMultiplier = 4 / 5,
           defend = (\<lambda>c d. max 0 (d * (1 / 2))),
           attack = (\<lambda>c opp. \<lparr>damage = 10, knockback = \<lparr>v_x = 200, v_y = - 100\<rparr>,
                               hitStun = 200\<rparr>)\<rparr>)"

definition exampleConfig :: GameConfig where
  "exampleConfig =
     \<lparr>CHARACTER_WIDTH = 50, CHARACTER_HEIGHT = 80, GROUND_Y = 500, GRAVITY = 1500,
      MAX_HEALTH = 100, ATTACK_COOLDOWN = 500, ATTACK_WIDTH = 60, ATTACK_HEIGHT = 40,
      CANVAS_WIDTH = 1000, ATTACK_DURATION = 200, HIT_STUN_DURATION = 300,
      CHARACTER_SPEED = 300, JUMP_FORCE = - 600, strategy = exampleStrategy\<rparr>"

text \<open>Two Characters paired as the factory pairs them, every other address like the second.\<close>

definition exampleWorld :: World where
  "exampleWorld =
     (\<lambda>i. if i = 0
          then setOpponent (newCharacter exampleConfig ''Player1'' \<lparr>v_x = 200, v_y = 420\<rparr> True) 1
          else setOpponent (newCharacter exampleConfig ''Player2'' \<lparr>v_x = 700, v_y = 420\<rparr> False) 0)"

definition placeAt :: "World \<Rightarrow> nat \<Rightarrow> real \<Rightarrow> World" where
  "placeAt w a x = w(a := (w a)\<lparr>position := (position (w a))\<lparr>v_x := x\<rparr>\<rparr>)"

text \<open>
  The first Character in its Attack state, facing the second one, which stands inside the
  reach of the attack hitbox.
\<close>

definition duelWorld :: World where
  "duelWorld =
     (placeAt exampleWorld 1 260)(0 := transitionTo exampleConfig (exampleWorld 0) Attack)"

text \<open>A Character in its Attack state to which no opponent has been assigned.\<close>

definition loneAttacker :: World where
  "loneAttacker =
     exampleWorld
       (0 := transitionTo exampleConfig
               (newCharacter exampleConfig ''Player1'' \<lparr>v_x = 200, v_y = 420\<rparr> True) Attack)"

definition exampleHit :: AttackResult where
  "exampleHit = \<lparr>damage = 10, knockback = \<lparr>v_x = 200, v_y = - 100\<rparr>, hitStun = 500\<rparr>"

section \<open>Auxiliary facts\<close>

text \<open>Which fields the operations of a Character leave alone.\<close>

lemmas char_defs = notify_def applyGravity_def checkGroundCollision_def checkBoundaries_def
  startAttackCooldown_def updateAttackHitbox_def createAttackHitbox_def removeAttackHitbox_def
  IdleState_enter_def IdleState_exit_def MoveState_enter_def MoveState_exit_def
  AttackState_enter_def AttackState_exit_def HitState_enter_def HitState_exit_def
  init_def Let_def

lemma transitionTo_currentState [simp]: "currentState (transitionTo cfg c s) = s"
  by (cases s; cases "currentState c") (simp_all add: transitionTo_def char_defs split: option.splits)

lemma transitionTo_hitbox:
  "hitboxMatchesState c \<Longrightarrow> hitboxMatchesState (transitionTo cfg c s)"
  by (cases s; cases "currentState c")
     (auto simp: hitboxMatchesState_def transitionTo_def char_defs split: option.splits)

lemma transitionTo_keeps [simp]:
  "opponent (transitionTo cfg c s) = opponent c"
  "notified (transitionTo cfg c s) = notified c"
  "health (transitionTo cfg c s) = health c"
  "position (transitionTo cfg c s) = position c"
  "playerId (transitionTo cfg c s) = playerId c"
  "elementalMode (transitionTo cfg c s) = elementalMode c"
  by (cases s; cases "currentState c"; simp add: transitionTo_def char_defs split: option.splits)+

lemma transitionTo_hasHit [simp]:
  "s \<noteq> Attack \<Longrightarrow> hasHit (transitionTo cfg c s) = hasHit c"
  by (cases s; cases "currentState c"; simp add: transitionTo_def char_defs split: option.splits)

lemma transitionTo_Attack_hasHit: "\<not> hasHit (transitionTo cfg c Attack)"
  by (cases "currentState c") (simp_all add: transitionTo_def char_defs split: option.splits)

lemma takeDamage_keeps [simp]:
  "opponent (takeDamage cfg c r) = opponent c"
  "hasHit (takeDamage cfg c r) = hasHit c"
  "position (takeDamage cfg c r) = position c"
  "currentState (takeDamage cfg c r) = Hit"
  "healthEvents (takeDamage cfg c r) = Suc (healthEvents c)"
  by (simp_all add: takeDamage_def Let_def notify_def healthEvents_def)

lemma takeDamage_health:
  "health (takeDamage cfg c r) =
     max 0 (health c - defend (strategy cfg (elementalMode c)) c (damage r))"
  by (simp add: takeDamage_def Let_def notify_def)

lemma takeDamage_hitbox: "hitboxMatchesState c \<Longrightarrow> hitboxMatchesState (takeDamage cfg c r)"
proof -
  assume h: "hitboxMatchesState c"
  have "hitboxMatchesState (c\<lparr>health := hh, velocity := vv, lastHitStun := ll\<rparr>)" for hh vv ll
    using h by (simp add: hitboxMatchesState_def)
  then show ?thesis
    using transitionTo_hitbox
    by (simp add: takeDamage_def Let_def notify_def hitboxMatchesState_def)
qed

lemma checkTransitions_keeps [simp]:
  "opponent (checkTransitions cfg c) = opponent c"
  "notified (checkTransitions cfg c) = notified c"
  "health (checkTransitions cfg c) = health c"
  "position (checkTransitions cfg c) = position c"
  by (simp_all add: checkTransitions_def split: option.splits)

lemma checkTransitions_hasHit:
  "currentState c = Attack \<or> currentState c = Hit \<Longrightarrow> hasHit (checkTransitions cfg c) = hasHit c"
  by (auto simp add: checkTransitions_def AttackState_canTransition_def
      HitState_canTransition_def split: option.splits if_splits)

lemma checkTransitions_hitbox:
  "hitboxMatchesState c \<Longrightarrow> hitboxMatchesState (checkTransitions cfg c)"
  by (simp add: checkTransitions_def transitionTo_hitbox split: option.splits)

lemma tickCooldown_keeps [simp]:
  "opponent (tickCooldown c dt) = opponent c"
  "notified (tickCooldown c dt) = notified c"
  "health (tickCooldown c dt) = health c"
  "hasHit (tickCooldown c dt) = hasHit c"
  "currentState (tickCooldown c dt) = currentState c"
  "position (tickCooldown c dt) = position c"
  "attackHitbox (tickCooldown c dt) = attackHitbox c"
  by (simp_all add: tickCooldown_def)

lemma applyGravity_keeps [simp]:
  "opponent (applyGravity cfg c dt) = opponent c"
  "notified (applyGravity cfg c dt) = notified c"
  "health (applyGravity cfg c dt) = health c"
  "hasHit (applyGravity cfg c dt) = hasHit c"
  "currentState (applyGravity cfg c dt) = currentState c"
  "attackHitbox (applyGravity cfg c dt) = attackHitbox c"
  "position (applyGravity cfg c dt) = position c"
  by (simp_all add: applyGravity_def)

lemma checkGroundCollision_keeps [simp]:
  "opponent (checkGroundCollision cfg c) = opponent c"
  "notified (checkGroundCollision cfg c) = notified c"
  "health (checkGroundCollision cfg c) = health c"
  "hasHit (checkGroundCollision cfg c) = hasHit c"
  "currentState (checkGroundCollision cfg c) = currentState c"
  "attackHitbox (checkGroundCollision cfg c) = attackHitbox c"
  "v_x (position (checkGroundCollision cfg c)) = v_x (position c)"
  by (simp_all add: checkGroundCollision_def Let_def)

lemma checkBoundaries_keeps [simp]:
  "opponent (checkBoundaries cfg c) = opponent c"
  "notified (checkBoundaries cfg c) = notified c"
  "health (checkBoundaries cfg c) = health c"
  "hasHit (checkBoundaries cfg c) = hasHit c"
  "currentState (checkBoundaries cfg c) = currentState c"
  "attackHitbox (checkBoundaries cfg c) = attackHitbox c"
  by (simp_all add: checkBoundaries_def Let_def)

lemma IdleState_update_keeps [simp]:
  "opponent (IdleState_update cfg c dt) = opponent c"
  "notified (IdleState_update cfg c dt) = notified c"
  "health (IdleState_update cfg c dt) = health c"
  "currentState (IdleState_update cfg c dt) = currentState c"
  "attackHitbox (IdleState_update cfg c dt) = attackHitbox c"
  by (simp_all add: IdleState_update_def)

lemma MoveState_update_keeps [simp]:
  "opponent (MoveState_update cfg c dt) = opponent c"
  "notified (MoveState_update cfg c dt) = notified c"
  "health (MoveState_update cfg c dt) = health c"
  "currentState (MoveState_update cfg c dt) = currentState c"
  "attackHitbox (MoveState_update cfg c dt) = attackHitbox c"
  by (simp_all add: MoveState_update_def Let_def)

lemma HitState_update_keeps [simp]:
  "opponent (HitState_update cfg c dt) = opponent c"
  "notified (HitState_update cfg c dt) = notified c"
  "health (HitState_update cfg c dt) = health c"
  "currentState (HitState_update cfg c dt) = currentState c"
  "attackHitbox (HitState_update cfg c dt) = attackHitbox c"
  by (simp_all add: HitState_update_def Let_def)

lemma AttackState_move_keeps [simp]:
  "opponent (AttackState_move cfg c dt) = opponent c"
  "notified (AttackState_move cfg c dt) = notified c"
  "health (AttackState_move cfg c dt) = health c"
  "hasHit (AttackState_move cfg c dt) = hasHit c"
  "currentState (AttackState_move cfg c dt) = currentState c"
  "v_x (position (AttackState_move cfg c dt)) = v_x (position c)"
  "elementalMode (AttackState_move cfg c dt) = elementalMode c"
  by (simp_all add: AttackState_move_def char_defs split: option.splits)

lemma AttackState_move_hitbox:
  "(attackHitbox (AttackState_move cfg c dt) = None) = (attackHitbox c = None)"
  by (simp add: AttackState_move_def char_defs split: option.splits)

lemma switchElementalMode_keeps [simp]:
  "opponent (switchElementalMode cfg c) = opponent c"
  "hasHit (switchElementalMode cfg c) = hasHit c"
  "currentState (switchElementalMode cfg c) = currentState c"
  "attackHitbox (switchElementalMode cfg c) = attackHitbox c"
  "position (switchElementalMode cfg c) = position c"
  "healthEvents (switchElementalMode cfg c) = healthEvents c"
  by (simp_all add: switchElementalMode_def Let_def notify_def healthEvents_def)

lemma shiftX_keeps [simp]:
  "opponent (shiftX c d) = opponent c"
  "hasHit (shiftX c d) = hasHit c"
  "currentState (shiftX c d) = currentState c"
  "attackHitbox (shiftX c d) = attackHitbox c"
  "notified (shiftX c d) = notified c"
  by (simp_all add: shiftX_def)

lemma commands_keep [simp]:
  "opponent (MoveCommand_execute dir p c) = opponent c"
  "hasHit (MoveCommand_execute dir p c) = hasHit c"
  "currentState (MoveCommand_execute dir p c) = currentState c"
  "attackHitbox (MoveCommand_execute dir p c) = attackHitbox c"
  "notified (MoveCommand_execute dir p c) = notified c"
  "position (MoveCommand_execute dir p c) = position c"
  "opponent (AttackCommand_execute p c) = opponent c"
  "hasHit (AttackCommand_execute p c) = hasHit c"
  "currentState (AttackCommand_execute p c) = currentState c"
  "attackHitbox (AttackCommand_execute p c) = attackHitbox c"
  "notified (AttackCommand_execute p c) = notified c"
  "position (AttackCommand_execute p c) = position c"
  by (simp_all add: MoveCommand_execute_def AttackCommand_execute_def Let_def)

lemma reset_hitbox: "hitboxMatchesState (reset cfg c p)"
  by (cases "currentState c")
     (simp_all add: reset_def Let_def notify_def transitionTo_def hitboxMatchesState_def char_defs)

lemma newCharacter_hitbox: "hitboxMatchesState (newCharacter cfg pid pos facing)"
  by (simp add: newCharacter_def hitboxMatchesState_def IdleState_enter_def)

text \<open>
  The attack hitbox is placed beside the Character's own hurtbox, so a Character whose
  opponent reference points to itself never hits itself.
\<close>

lemma no_self_hit:
  "attackHitbox (updateAttackHitbox cfg c) = Some hb \<Longrightarrow>
   \<not> intersects hb (getHurtbox cfg (updateAttackHitbox cfg c))"
  by (auto simp: updateAttackHitbox_def init_def Let_def intersects_def getHurtbox_def
      split: option.splits if_splits)

lemma AttackState_move_no_self_hit:
  "attackHitbox (AttackState_move cfg c dt) = Some hb \<Longrightarrow>
   \<not> intersects hb (getHurtbox cfg (AttackState_move cfg c dt))"
  unfolding AttackState_move_def Let_def by (rule no_self_hit)

text \<open>
  The shape of one frame: \<open>update\<close> of the Character at \<open>a\<close> rewrites \<open>a\<close> and, when the
  hit check lands, applies \<open>takeDamage\<close> to the opponent; nothing else in the store changes.
\<close>

lemma AttackState_update_cases:
  "AttackState_update cfg w a dt = w(a := AttackState_move cfg (w a) dt)
   \<or> (\<exists>b r. b \<noteq> a \<and> opponent (w a) = Some b \<and> \<not> hasHit (w a) \<and>
        AttackState_update cfg w a dt =
          w(a := (AttackState_move cfg (w a) dt)\<lparr>hasHit := True\<rparr>, b := takeDamage cfg (w b) r))"
proof (cases "hasHit (w a)")
  case True
  then show ?thesis by (simp add: AttackState_update_def Let_def)
next
  case nh: False
  show ?thesis
  proof (cases "attackHitbox (AttackState_move cfg (w a) dt)")
    case None
    then show ?thesis using nh by (simp add: AttackState_update_def Let_def checkAttackHit_def)
  next
    case (Some hb)
    show ?thesis
    proof (cases "opponent (w a)")
      case None
      then show ?thesis using nh Some by (simp add: AttackState_update_def Let_def checkAttackHit_def)
    next
      case (Some b)
      note opp = this
      show ?thesis
      proof (cases "b = a")
        case True
        then show ?thesis
          using nh opp \<open>attackHitbox (AttackState_move cfg (w a) dt) = Some hb\<close>
            AttackState_move_no_self_hit [of cfg "w a" dt hb]
          by (simp add: AttackState_update_def Let_def checkAttackHit_def)
      next
        case ne: False
        show ?thesis
        proof (cases "intersects hb (getHurtbox cfg (w b))")
          case True
          have "AttackState_update cfg w a dt =
                  w(a := (AttackState_move cfg (w a) dt)\<lparr>hasHit := True\<rparr>,
                    b := takeDamage cfg (w b)
                           (attack (strategy cfg (elementalMode (w a)))
                              (AttackState_move cfg (w a) dt) (w b)))"
            using True ne nh opp \<open>attackHitbox (AttackState_move cfg (w a) dt) = Some hb\<close>
            by (simp add: AttackState_update_def Let_def checkAttackHit_def fun_upd_twist)
          then show ?thesis using ne nh opp by blast
        next
          case False
          then show ?thesis
            using ne nh opp \<open>attackHitbox (AttackState_move cfg (w a) dt) = Some hb\<close>
            by (simp add: AttackState_update_def Let_def checkAttackHit_def)
        qed
      qed
    qed
  qed
qed

lemma AttackState_update_self:
  "AttackState_update cfg w a dt a = AttackState_move cfg (w a) dt
   \<or> AttackState_update cfg w a dt a = (AttackState_move cfg (w a) dt)\<lparr>hasHit := True\<rparr>"
  using AttackState_update_cases [of cfg w a dt] by auto

lemma update_self:
  "update cfg w a dt a =
     checkTransitions cfg
       (state_update cfg (currentState (w a)) (w(a := tickCooldown (w a) dt)) a dt a)"
  by (simp add: update_def Let_def)

lemma state_update_self_keeps [simp]:
  "opponent (state_update cfg s w a dt a) = opponent (w a)"
  "notified (state_update cfg s w a dt a) = notified (w a)"
  "health (state_update cfg s w a dt a) = health (w a)"
  "currentState (state_update cfg s w a dt a) = currentState (w a)"
  using AttackState_update_self [of cfg w a dt]
  by (cases s; auto)+

lemma state_update_self_hitbox:
  "(attackHitbox (state_update cfg s w a dt a) = None) = (attackHitbox (w a) = None)"
  using AttackState_update_self [of cfg w a dt] AttackState_move_hitbox [of cfg "w a" dt]
  by (cases s; auto)

lemma update_self_keeps [simp]:
  "opponent (update cfg w a dt a) = opponent (w a)"
  "notified (update cfg w a dt a) = notified (w a)"
  "health (update cfg w a dt a) = health (w a)"
  by (simp_all add: update_self)

lemma update_self_hitbox:
  assumes "hitboxMatchesState (w a)"
  shows "hitboxMatchesState (update cfg w a dt a)"
proof -
  let ?c = "state_update cfg (currentState (w a)) (w(a := tickCooldown (w a) dt)) a dt a"
  have "hitboxMatchesState ?c"
    using assms state_update_self_hitbox [of cfg "currentState (w a)" "w(a := tickCooldown (w a) dt)" a dt]
    by (simp add: hitboxMatchesState_def)
  then show ?thesis by (simp add: update_self checkTransitions_hitbox)
qed

lemma update_self_attack:
  assumes "currentState (w a) = Attack"
  shows "v_x (position (update cfg w a dt a)) = v_x (position (w a))"
    and "hasHit (w a) \<Longrightarrow> hasHit (update cfg w a dt a)"
proof -
  let ?w1 = "w(a := tickCooldown (w a) dt)"
  let ?c = "AttackState_update cfg ?w1 a dt a"
  have u: "update cfg w a dt a = checkTransitions cfg ?c"
    using assms by (simp add: update_self)
  have cs: "currentState ?c = Attack"
    using state_update_self_keeps(4) [of cfg Attack ?w1 a dt] assms by simp
  show "v_x (position (update cfg w a dt a)) = v_x (position (w a))"
    using AttackState_update_self [of cfg ?w1 a dt] by (auto simp: u)
  show "hasHit (w a) \<Longrightarrow> hasHit (update cfg w a dt a)"
    using AttackState_update_self [of cfg ?w1 a dt] cs
    by (auto simp: u checkTransitions_hasHit)
qed

lemma update_shape:
  "(\<exists>c'. update cfg w a dt = w(a := c'))
   \<or> (\<exists>b r c'. b \<noteq> a \<and> opponent (w a) = Some b \<and> currentState (w a) = Attack \<and>
         \<not> hasHit (w a) \<and> hasHit c' \<and>
         update cfg w a dt = w(a := c', b := takeDamage cfg (w b) r))"
proof (cases "currentState (w a) = Attack")
  case False
  then show ?thesis
    by (cases "currentState (w a)") (auto simp: update_def Let_def)
next
  case True
  let ?w1 = "w(a := tickCooldown (w a) dt)"
  from AttackState_update_cases [of cfg ?w1 a dt]
  show ?thesis
  proof
    assume "AttackState_update cfg ?w1 a dt = ?w1(a := AttackState_move cfg (?w1 a) dt)"
    then show ?thesis using True by (auto simp: update_def Let_def)
  next
    assume "\<exists>b r. b \<noteq> a \<and> opponent (?w1 a) = Some b \<and> \<not> hasHit (?w1 a) \<and>
        AttackState_update cfg ?w1 a dt =
          ?w1(a := (AttackState_move cfg (?w1 a) dt)\<lparr>hasHit := True\<rparr>,
              b := takeDamage cfg (?w1 b) r)"
    then obtain b r where b: "b \<noteq> a" "opponent (w a) = Some b" "\<not> hasHit (w a)"
      and e: "AttackState_update cfg ?w1 a dt =
          ?w1(a := (AttackState_move cfg (?w1 a) dt)\<lparr>hasHit := True\<rparr>,
              b := takeDamage cfg (?w1 b) r)"
      by auto
    let ?c = "checkTransitions cfg ((AttackState_move cfg (tickCooldown (w a) dt) dt)\<lparr>hasHit := True\<rparr>)"
    have "update cfg w a dt = w(a := ?c, b := takeDamage cfg (w b) r)"
      using True b e by (simp add: update_def Let_def fun_upd_twist)
    moreover have "hasHit ?c"
      using True by (simp add: checkTransitions_hasHit)
    ultimately show ?thesis using b True by blast
  qed
qed

lemma update_other:
  assumes "x \<noteq> a"
  shows "update cfg w a dt x = w x
         \<or> (opponent (w a) = Some x \<and> currentState (w a) = Attack \<and> \<not> hasHit (w a) \<and>
            hasHit (update cfg w a dt a) \<and> (\<exists>r. update cfg w a dt x = takeDamage cfg (w x) r))"
  using update_shape [of cfg w a dt] assms
  by (auto simp: fun_upd_def split: if_splits)

lemma resolve_shape:
  "resolveCharacterCollision cfg w a b = w
   \<or> (\<exists>d e. resolveCharacterCollision cfg w a b = w(a := shiftX (w a) d, b := shiftX ((w(a := shiftX (w a) d)) b) e))"
  by (auto simp: resolveCharacterCollision_def Let_def)

lemma resolve_keeps [simp]:
  "opponent (resolveCharacterCollision cfg w a b x) = opponent (w x)"
  "hasHit (resolveCharacterCollision cfg w a b x) = hasHit (w x)"
  "currentState (resolveCharacterCollision cfg w a b x) = currentState (w x)"
  "attackHitbox (resolveCharacterCollision cfg w a b x) = attackHitbox (w x)"
  "notified (resolveCharacterCollision cfg w a b x) = notified (w x)"
  using resolve_shape [of cfg w a b] by (auto simp: fun_upd_def split: if_splits)

text \<open>Invariants along sequences of operations.\<close>

lemma apply_op_hitbox:
  assumes "\<forall>x. hitboxMatchesState (w x)"
  shows "hitboxMatchesState (apply_op cfg w p x)"
proof (cases p)
  case (Update a dt)
  show ?thesis
  proof (cases "x = a")
    case True
    then show ?thesis using Update assms by (simp add: update_self_hitbox)
  next
    case False
    from update_other [OF False, of cfg w dt] show ?thesis
      using Update assms takeDamage_hitbox by auto
  qed
next
  case (TakeDamage a r)
  then show ?thesis using assms by (simp add: takeDamage_hitbox)
next
  case (SwitchElementalMode a)
  then show ?thesis using assms by (simp add: hitboxMatchesState_def)
next
  case (Reset a pos)
  then show ?thesis using assms by (simp add: reset_hitbox)
next
  case (SetOpponent a b)
  then show ?thesis using assms by (simp add: hitboxMatchesState_def setOpponent_def)
next
  case (MoveCommand d pr a)
  then show ?thesis using assms by (simp add: hitboxMatchesState_def)
next
  case (AttackCommand pr a)
  then show ?thesis using assms by (simp add: hitboxMatchesState_def)
next
  case (ResolveCharacterCollision a b)
  then show ?thesis using assms by (simp add: hitboxMatchesState_def)
qed

lemma run_hitbox:
  "\<forall>x. hitboxMatchesState (w x) \<Longrightarrow> hitboxMatchesState (run cfg w ops x)"
proof (induction ops arbitrary: w)
  case Nil
  then show ?case by simp
next
  case (Cons p ps)
  have "\<forall>x. hitboxMatchesState (apply_op cfg w p x)"
    using Cons.prems apply_op_hitbox by blast
  then show ?case using Cons.IH by simp
qed

lemma apply_op_opponent:
  "frameOp p \<Longrightarrow> opponent (apply_op cfg w p x) = opponent (w x)"
proof (cases p)
  case (Update a dt)
  show ?thesis
  proof (cases "x = a")
    case True then show ?thesis using Update by simp
  next
    case False
    from update_other [OF False, of cfg w dt] show ?thesis using Update by auto
  qed
qed auto

lemma update_attacker_pot:
  assumes att: "currentState (w a) = Attack"
  shows "healthEvents (update cfg w a dt b) + (if hasHit (update cfg w a dt a) then 0 else 1)
         \<le> healthEvents (w b) + (if hasHit (w a) then 0 else 1)"
proof (cases "b = a")
  case True
  have "healthEvents (update cfg w a dt a) = healthEvents (w a)"
    by (simp add: healthEvents_def)
  then show ?thesis using True att update_self_attack(2) [of w a cfg dt] by auto
next
  case False
  from update_other [OF False, of cfg w dt] show ?thesis
  proof
    assume "update cfg w a dt b = w b"
    then show ?thesis using att update_self_attack(2) [of w a cfg dt] by auto
  next
    assume "opponent (w a) = Some b \<and> currentState (w a) = Attack \<and> \<not> hasHit (w a) \<and>
            hasHit (update cfg w a dt a) \<and> (\<exists>r. update cfg w a dt b = takeDamage cfg (w b) r)"
    then show ?thesis by auto
  qed
qed

lemma update_bystander_pot:
  assumes "x \<noteq> a" and "opponent (w x) \<noteq> Some b"
  shows "healthEvents (update cfg w x dt b) = healthEvents (w b)"
    and "hasHit (update cfg w x dt a) = hasHit (w a)"
proof -
  show "healthEvents (update cfg w x dt b) = healthEvents (w b)"
  proof (cases "b = x")
    case True then show ?thesis by (simp add: healthEvents_def)
  next
    case False
    from update_other [OF False, of cfg w dt] show ?thesis using assms by auto
  qed
  from update_other [OF assms(1) [symmetric], of cfg w dt]
  show "hasHit (update cfg w x dt a) = hasHit (w a)" by auto
qed

lemma apply_op_pot:
  assumes "frameOp p" and "currentState (w a) = Attack"
    and "\<forall>x. opponent (w x) = Some b \<longrightarrow> x = a"
  shows "healthEvents (apply_op cfg w p b) + (if hasHit (apply_op cfg w p a) then 0 else 1)
         \<le> healthEvents (w b) + (if hasHit (w a) then 0 else 1)"
proof (cases p)
  case (Update x dt)
  show ?thesis
  proof (cases "x = a")
    case True
    then show ?thesis using Update assms(2) update_attacker_pot [of w a cfg dt b] by simp
  next
    case False
    then have "opponent (w x) \<noteq> Some b" using assms(3) by blast
    then show ?thesis using Update update_bystander_pot [OF False, of w b cfg dt] by simp
  qed
next
  case (SwitchElementalMode x)
  then show ?thesis by simp
next
  case (MoveCommand d pr x)
  then show ?thesis by (simp add: healthEvents_def)
next
  case (AttackCommand pr x)
  then show ?thesis by (simp add: healthEvents_def)
next
  case (ResolveCharacterCollision x y)
  then show ?thesis by (simp add: healthEvents_def)
qed (use assms in auto)

lemma activation_pot:
  assumes "list_all frameOp ops"
    and "\<forall>x. opponent (w x) = Some b \<longrightarrow> x = a"
  shows "healthEvents (activation cfg w a ops b) + (if hasHit (activation cfg w a ops a) then 0 else 1)
         \<le> healthEvents (w b) + (if hasHit (w a) then 0 else 1)"
  using assms
proof (induction ops arbitrary: w)
  case Nil
  then show ?case by simp
next
  case (Cons p ps)
  show ?case
  proof (cases "currentState (w a) = Attack")
    case False
    then show ?thesis by simp
  next
    case True
    let ?w = "apply_op cfg w p"
    have fp: "frameOp p" and fps: "list_all frameOp ps" using Cons.prems(1) by simp_all
    have opp: "\<forall>x. opponent (?w x) = Some b \<longrightarrow> x = a"
      using Cons.prems(2) apply_op_opponent [OF fp] by simp
    have "healthEvents (activation cfg ?w a ps b) + (if hasHit (activation cfg ?w a ps a) then 0 else 1)
          \<le> healthEvents (?w b) + (if hasHit (?w a) then 0 else 1)"
      using Cons.IH [OF fps opp] .
    also have "\<dots> \<le> healthEvents (w b) + (if hasHit (w a) then 0 else 1)"
      using apply_op_pot [OF fp True Cons.prems(2)] .
    finally show ?thesis using True by simp
  qed
qed

lemma apply_op_x:
  assumes "frameOp p" "\<not> isResolve p" "currentState (w a) = Attack"
  shows "v_x (position (apply_op cfg w p a)) = v_x (position (w a))"
proof (cases p)
  case (Update x dt)
  show ?thesis
  proof (cases "x = a")
    case True
    then show ?thesis using Update assms(3) update_self_attack(1) [of w a cfg dt] by simp
  next
    case False
    from update_other [OF False [symmetric], of cfg w dt] show ?thesis using Update by auto
  qed
qed (use assms in auto)

lemma activation_x:
  "list_all (\<lambda>p. frameOp p \<and> \<not> isResolve p) ops \<Longrightarrow>
   v_x (position (activation cfg w a ops a)) = v_x (position (w a))"
proof (induction ops arbitrary: w)
  case Nil
  then show ?case by simp
next
  case (Cons p ps)
  then show ?case using apply_op_x [of p w a cfg] by (cases "currentState (w a) = Attack") auto
qed

section \<open>Combat results\<close>

text \<open>
  C1. Let \<open>b\<close> be the assigned opponent of the Character at \<open>a\<close>, and \<open>a\<close> the only Character
  whose opponent is \<open>b\<close>. Over one Attack activation of \<open>a\<close>, whatever frame operations are
  interleaved (updates of any Character, commands, mode switches, collision resolution),
  \<open>takeDamage\<close> of \<open>b\<close> is called at most once if \<open>hasHit\<close> is still false and not at all if
  it is already true. \<open>hasHit\<close> is false after entering Attack; and once it is true in the
  Attack state, an update of \<open>a\<close> keeps it true and leaves every other Character untouched.
\<close>

theorem attack_damages_at_most_once:
  assumes "opponent (w a) = Some b"
    and "\<forall>x. opponent (w x) = Some b \<longrightarrow> x = a"
    and "list_all frameOp ops"
  shows "healthEvents (activation cfg w a ops b)
           \<le> healthEvents (w b) + (if hasHit (w a) then 0 else 1)
       \<and> \<not> hasHit (transitionTo cfg c Attack)
       \<and> (currentState (w a) = Attack \<and> hasHit (w a) \<longrightarrow>
            hasHit (update cfg w a dt a) \<and> (\<forall>x. x \<noteq> a \<longrightarrow> update cfg w a dt x = w x))"
proof -
  have "healthEvents (activation cfg w a ops b)
          \<le> healthEvents (w b) + (if hasHit (w a) then 0 else 1)"
    using activation_pot [OF assms(3) assms(2), of cfg] by (simp split: if_splits)
  moreover have "hasHit (update cfg w a dt a) \<and> (\<forall>x. x \<noteq> a \<longrightarrow> update cfg w a dt x = w x)"
    if "currentState (w a) = Attack" "hasHit (w a)"
    using that update_self_attack(2) [of w a cfg dt] update_other [of _ a cfg w dt] by blast
  ultimately show ?thesis using transitionTo_Attack_hasHit by blast
qed

theorem attack_damages_at_most_once_witness:
  "opponent (duelWorld 0) = Some 1
   \<and> list_all frameOp [Update 0 (1 / 60), Update 1 (1 / 60), Update 0 (1 / 60)]
   \<and> currentState (duelWorld 0) = Attack
   \<and> \<not> hasHit (duelWorld 0)
   \<and> healthEvents (duelWorld 1) = 0
   \<and> healthEvents (activation exampleConfig duelWorld 0
                      [Update 0 (1 / 60), Update 1 (1 / 60), Update 0 (1 / 60)] 1) = 1
   \<and> healthEvents (activation exampleConfig duelWorld 0
                      [Update 0 (1 / 60), Update 1 (1 / 60), Update 0 (1 / 60)] 1)
        \<le> healthEvents (duelWorld 1) + (if hasHit (duelWorld 0) then 0 else 1)"
proof -
  have h1: "opponent (duelWorld 0) = Some 1" by code_simp
  have h2: "\<forall>x. opponent (duelWorld x) = Some 1 \<longrightarrow> x = 0"
    by (simp add: duelWorld_def placeAt_def exampleWorld_def setOpponent_def)
  have h3: "list_all frameOp [Update 0 (1 / 60), Update 1 (1 / 60), Update 0 (1 / 60)]" by simp
  have e: "currentState (duelWorld 0) = Attack \<and> \<not> hasHit (duelWorld 0)
           \<and> healthEvents (duelWorld 1) = 0
           \<and> healthEvents (activation exampleConfig duelWorld 0
                      [Update 0 (1 / 60), Update 1 (1 / 60), Update 0 (1 / 60)] 1) = 1"
    by code_simp
  from attack_damages_at_most_once [OF h1 h2 h3, of exampleConfig "exampleWorld 0" "1 / 60"]
  have "healthEvents (activation exampleConfig duelWorld 0
                      [Update 0 (1 / 60), Update 1 (1 / 60), Update 0 (1 / 60)] 1)
        \<le> healthEvents (duelWorld 1) + (if hasHit (duelWorld 0) then 0 else 1)"
    by (rule conjunct1)
  with h1 h3 e show ?thesis by blast
qed

text \<open>
  C2. A Character with \<open>0 \<le> health \<le> maxHealth\<close> still has it after \<open>takeDamage\<close>, when the
  active mode's \<open>defend\<close> returns a non-negative value for that call: the new health is
  \<open>max 0 (health - reducedDamage)\<close> and is not above the old one. It also still has it
  after the \<open>update\<close> of any Character (its own or another one's), when \<open>defend\<close> never
  returns a negative value.
\<close>

theorem health_stays_in_range:
  "(healthInRange cfg c \<and> 0 \<le> defend (strategy cfg (elementalMode c)) c (damage r) \<longrightarrow>
      healthInRange cfg (takeDamage cfg c r) \<and> health (takeDamage cfg c r) \<le> health c \<and>
      health (takeDamage cfg c r) =
        max 0 (health c - defend (strategy cfg (elementalMode c)) c (damage r)))
   \<and> (healthInRange cfg (w x) \<and> (\<forall>m c' d. 0 \<le> defend (strategy cfg m) c' d) \<longrightarrow>
        healthInRange cfg (update cfg w a dt x))"
proof -
  have td: "healthInRange cfg (takeDamage cfg c' r') \<and> health (takeDamage cfg c' r') \<le> health c'"
    if "healthInRange cfg c'" "0 \<le> defend (strategy cfg (elementalMode c')) c' (damage r')"
    for c' r'
    using that by (auto simp: healthInRange_def takeDamage_health)
  have up: "healthInRange cfg (update cfg w a dt x)"
    if h: "healthInRange cfg (w x)" and d: "\<forall>m c' d. 0 \<le> defend (strategy cfg m) c' d"
  proof (cases "x = a")
    case True
    then show ?thesis using h by (simp add: healthInRange_def)
  next
    case False
    from update_other [OF False, of cfg w dt] show ?thesis
      using h d td by auto
  qed
  have eq: "health (takeDamage cfg c r) =
              max 0 (health c - defend (strategy cfg (elementalMode c)) c (damage r))"
    by (rule takeDamage_health)
  show ?thesis using td [of c r] up eq by blast
qed

theorem health_stays_in_range_witness:
  "healthInRange exampleConfig (exampleWorld 1)
   \<and> healthInRange exampleConfig (takeDamage exampleConfig (exampleWorld 1) exampleHit)
   \<and> health (takeDamage exampleConfig (exampleWorld 1) exampleHit) = 91
   \<and> healthInRange exampleConfig (duelWorld 1)
   \<and> healthInRange exampleConfig (update exampleConfig duelWorld 0 (1 / 60) 1)
   \<and> health (update exampleConfig duelWorld 0 (1 / 60) 1) = 173 / 2"
proof -
  have h: "\<forall>m c d. 0 \<le> defend (strategy exampleConfig m) c d"
    by (simp add: exampleConfig_def exampleStrategy_def split: Mode.splits)
  have e: "healthInRange exampleConfig (exampleWorld 1)
           \<and> health (takeDamage exampleConfig (exampleWorld 1) exampleHit) = 91
           \<and> healthInRange exampleConfig (duelWorld 1)
           \<and> health (update exampleConfig duelWorld 0 (1 / 60) 1) = 173 / 2"
    by code_simp
  have h': "0 \<le> defend (strategy exampleConfig (elementalMode (exampleWorld 1)))
                   (exampleWorld 1) (damage exampleHit)"
    using h by blast
  from health_stays_in_range [of exampleConfig "exampleWorld 1" exampleHit duelWorld 1 0 "1 / 60"]
    h h' e
  show ?thesis by blast
qed

text \<open>
  C3. After any sequence of operations (\<open>update\<close>, \<open>takeDamage\<close>, \<open>switchElementalMode\<close>,
  \<open>reset\<close>, \<open>setOpponent\<close>, commands, collision resolution) on freshly constructed
  Characters, every Character has an attack hitbox exactly when its current state is
  Attack.
\<close>

theorem hitbox_iff_attack:
  "(let w = run cfg (\<lambda>i. newCharacter cfg (pid i) (pos i) (facing i)) ops
    in (attackHitbox (w x) \<noteq> None) = (currentState (w x) = Attack))"
proof -
  have "\<forall>i. hitboxMatchesState (newCharacter cfg (pid i) (pos i) (facing i))"
    by (simp add: newCharacter_hitbox)
  then have "hitboxMatchesState (run cfg (\<lambda>i. newCharacter cfg (pid i) (pos i) (facing i)) ops x)"
    by (rule run_hitbox)
  then show ?thesis by (simp add: hitboxMatchesState_def Let_def)
qed

theorem hitbox_iff_attack_witness:
  "currentState (run exampleConfig (\<lambda>i. newCharacter exampleConfig ''Player1'' \<lparr>v_x = 200, v_y = 420\<rparr> True)
                   [AttackCommand True 0, Update 0 (1 / 60)] 0) = Attack
   \<and> attackHitbox (run exampleConfig (\<lambda>i. newCharacter exampleConfig ''Player1'' \<lparr>v_x = 200, v_y = 420\<rparr> True)
                   [AttackCommand True 0, Update 0 (1 / 60)] 0) \<noteq> None"
proof -
  have e: "currentState (run exampleConfig (\<lambda>i. newCharacter exampleConfig ''Player1'' \<lparr>v_x = 200, v_y = 420\<rparr> True)
                   [AttackCommand True 0, Update 0 (1 / 60)] 0) = Attack"
    by code_simp
  from hitbox_iff_attack [of exampleConfig "\<lambda>i. ''Player1''" "\<lambda>i. \<lparr>v_x = 200, v_y = 420\<rparr>" "\<lambda>i. True"
      "[AttackCommand True 0, Update 0 (1 / 60)]" 0] e
  show ?thesis by (simp add: Let_def)
qed

text \<open>
  C4. \<open>switchElementalMode\<close> while \<open>isAttacking\<close> or \<open>isHitStunned\<close> returns the Character
  as it was: same mode, no event. Otherwise it toggles the mode between Fire and Water,
  passes exactly one mode-change event (the player and the new mode's name) to \<open>notify\<close>,
  and changes nothing else; a second call brings the original mode back.
\<close>

theorem switchElementalMode_guarded_toggle:
  "(isAttacking c \<or> isHitStunned c \<longrightarrow> switchElementalMode cfg c = c)
   \<and> (\<not> isAttacking c \<and> \<not> isHitStunned c \<longrightarrow>
        (let c' = switchElementalMode cfg c in
           elementalMode c' = (if elementalMode c = FireMode then WaterMode else FireMode)
         \<and> notified c' =
             notified c @ [ModeChangeEvent (playerId c) (name (strategy cfg (elementalMode c')))]
         \<and> c' = c\<lparr>elementalMode := elementalMode c', notified := notified c'\<rparr>
         \<and> elementalMode (switchElementalMode cfg c') = elementalMode c
         \<and> length (notified (switchElementalMode cfg c')) = length (notified c) + 2))"
  by (cases "elementalMode c") (simp_all add: switchElementalMode_def Let_def notify_def)

theorem switchElementalMode_guarded_toggle_witness:
  "\<not> isAttacking (exampleWorld 0) \<and> \<not> isHitStunned (exampleWorld 0)
   \<and> elementalMode (exampleWorld 0) = FireMode
   \<and> elementalMode (switchElementalMode exampleConfig (exampleWorld 0)) = WaterMode
   \<and> notified (switchElementalMode exampleConfig (exampleWorld 0)) = [ModeChangeEvent ''Player1'' ''Water'']
   \<and> elementalMode (switchElementalMode exampleConfig (switchElementalMode exampleConfig (exampleWorld 0))) = FireMode
   \<and> isAttacking (duelWorld 0)
   \<and> switchElementalMode exampleConfig (duelWorld 0) = duelWorld 0"
proof -
  have e: "\<not> isAttacking (exampleWorld 0) \<and> \<not> isHitStunned (exampleWorld 0)
           \<and> elementalMode (exampleWorld 0) = FireMode \<and> isAttacking (duelWorld 0)
           \<and> notified (exampleWorld 0) = [] \<and> playerId (exampleWorld 0) = ''Player1''
           \<and> name (strategy exampleConfig WaterMode) = ''Water''"
    by code_simp
  from switchElementalMode_guarded_toggle [of "exampleWorld 0" exampleConfig]
    switchElementalMode_guarded_toggle [of "duelWorld 0" exampleConfig] e
  show ?thesis by (simp add: Let_def)
qed

text \<open>
  \<open>takeDamage\<close> writes the health, the velocity and \<open>lastHitStun\<close> and then calls
  \<open>transitionTo\<close>, which runs \<open>exit\<close> of the state the Character is leaving before
  \<open>enter\<close> of Hit. In every state the health, the vertical velocity, the Hit state and
  the event come out as written; from Idle and from Attack so do the horizontal velocity
  and \<open>lastHitStun\<close>.
\<close>

lemma takeDamage_in_every_state:
  "(let d = defend (strategy cfg (elementalMode c)) c (damage r);
        c' = takeDamage cfg c r
    in health c' = max 0 (health c - d)
     \<and> v_y (velocity c') = v_y (knockback r)
     \<and> currentState c' = Hit \<and> isHitStunned c'
     \<and> notified c' =
         notified c @ [HealthChangeEvent (playerId c) (max 0 (health c - d)) (maxHealth cfg) d])"
  by (cases "currentState c")
     (simp_all add: takeDamage_def transitionTo_def char_defs split: option.splits)

lemma takeDamage_from_Idle_or_Attack:
  assumes "currentState c = Idle \<or> currentState c = Attack"
  shows "velocity (takeDamage cfg c r) = knockback r
       \<and> lastHitStun (takeDamage cfg c r) = hitStun r
       \<and> stunDuration (takeDamage cfg c r) =
           (if hitStun r = 0 then HIT_STUN_DURATION cfg else hitStun r)"
  using assms
  by (auto simp add: takeDamage_def transitionTo_def char_defs split: option.splits)

text \<open>
  C5. \<open>takeDamage(r)\<close> sets the health to \<open>max 0 (health - d)\<close>, overwrites the velocity with
  \<open>r.knockback\<close>, stores \<open>r.hitStun\<close> in \<open>lastHitStun\<close>, moves the Character into Hit and
  notifies. The code loses two of these writes in the \<open>exit\<close> of the state it leaves. A
  Character that is moving (right pressed, one frame) and takes a hit with knockback
  200 along x ends with horizontal velocity 0, because \<open>MoveState.exit\<close> zeroes it after
  the knockback was written. A Character that is already in Hit and takes a hit with
  \<open>hitStun\<close> 500 ends with \<open>lastHitStun\<close> 0 and with the default stun duration 300,
  because \<open>HitState.exit\<close> zeroes \<open>lastHitStun\<close> before \<open>HitState.enter\<close> reads it.
\<close>

theorem takeDamage_fields_lost_on_exit:
  "v_x (knockback exampleHit) = 200 \<and> hitStun exampleHit = 500
   \<and> currentState (run exampleConfig exampleWorld
                     [MoveCommand DirRight True 1, Update 1 (1 / 60)] 1) = Move
   \<and> v_x (velocity (run exampleConfig exampleWorld
                      [MoveCommand DirRight True 1, Update 1 (1 / 60),
                       TakeDamage 1 exampleHit] 1)) = 0
   \<and> currentState (run exampleConfig exampleWorld [TakeDamage 1 exampleHit] 1) = Hit
   \<and> lastHitStun (run exampleConfig exampleWorld
                     [TakeDamage 1 exampleHit, TakeDamage 1 exampleHit] 1) = 0
   \<and> stunDuration (run exampleConfig exampleWorld
                      [TakeDamage 1 exampleHit, TakeDamage 1 exampleHit] 1) = 300"
  by code_simp

text \<open>
  C6, as stated: attack hit checking on a Character without an opponent fails fast. It
  does not: for a Character in its Attack state, with a hitbox and no opponent,
  \<open>checkAttackHit\<close> returns false and the store it was given.
\<close>

theorem checkAttackHit_not_fail_fast:
  "opponent (loneAttacker 0) = None \<and> attackHitbox (loneAttacker 0) \<noteq> None
   \<and> checkAttackHit exampleConfig loneAttacker 0 = (loneAttacker, False)"
proof -
  have e: "opponent (loneAttacker 0) = None \<and> attackHitbox (loneAttacker 0) \<noteq> None"
    by code_simp
  then show ?thesis by (auto simp add: checkAttackHit_def)
qed

text \<open>
  C6, amended: on a Character to which no opponent has been assigned, \<open>checkAttackHit\<close>
  returns false and changes no Character, and \<open>AttackState.update\<close> only advances the
  attacker itself.
\<close>

theorem checkAttackHit_without_opponent:
  "opponent (w a) = None \<Longrightarrow>
     checkAttackHit cfg w a = (w, False)
   \<and> AttackState_update cfg w a dt = w(a := AttackState_move cfg (w a) dt)"
  by (simp add: checkAttackHit_def AttackState_update_def Let_def split: option.splits)

theorem checkAttackHit_without_opponent_witness:
  "opponent (loneAttacker 0) = None
   \<and> checkAttackHit exampleConfig loneAttacker 0 = (loneAttacker, False)
   \<and> AttackState_update exampleConfig loneAttacker 0 (1 / 60) 1 = loneAttacker 1"
proof -
  have h: "opponent (loneAttacker 0) = None" by code_simp
  from checkAttackHit_without_opponent [of loneAttacker 0 exampleConfig "1 / 60"] h
  show ?thesis by simp
qed

section \<open>Collision results\<close>

text \<open>
  C7. \<open>checkAABB a b\<close> is true exactly when the four strict inequalities hold together;
  rectangles that only touch along an edge (\<open>a.x + a.width = b.x\<close>) do not collide; and
  \<open>Hitbox.intersects\<close> is the same test on the hitbox's rectangle. This holds for all
  rectangles, those with non-negative width and height among them.
\<close>

theorem checkAABB_strict_overlap:
  "checkAABB a b =
     (r_x a < r_x b + r_width b \<and> r_x a + r_width a > r_x b \<and>
      r_y a < r_y b + r_height b \<and> r_y a + r_height a > r_y b)
   \<and> (r_x a + r_width a = r_x b \<longrightarrow> \<not> checkAABB a b)
   \<and> intersects h b = checkAABB (getRect h) b"
  by (simp add: checkAABB_def intersects_def getRect_def)

theorem checkAABB_strict_overlap_witness:
  "r_x \<lparr>r_x = 0, r_y = 0, r_width = 10, r_height = 10\<rparr>
     + r_width \<lparr>r_x = 0, r_y = 0, r_width = 10, r_height = 10\<rparr>
     = r_x \<lparr>r_x = 10, r_y = 0, r_width = 10, r_height = 10\<rparr>
   \<and> \<not> checkAABB \<lparr>r_x = 0, r_y = 0, r_width = 10, r_height = 10\<rparr>
                  \<lparr>r_x = 10, r_y = 0, r_width = 10, r_height = 10\<rparr>"
  using checkAABB_strict_overlap
    [of "\<lparr>r_x = 0, r_y = 0, r_width = 10, r_height = 10\<rparr>"
        "\<lparr>r_x = 10, r_y = 0, r_width = 10, r_height = 10\<rparr>"]
  by simp

text \<open>
  C8. For two distinct Characters whose hurtboxes overlap, \<open>resolveCharacterCollision\<close>
  moves each by half the horizontal overlap (the common width minus the distance of the
  two x positions) and changes nothing else of either: \<open>a\<close> to the left and \<open>b\<close> to the
  right when \<open>a.position.x < b.position.x\<close>, and \<open>a\<close> to the right and \<open>b\<close> to the left
  otherwise, the tie included. Every other Character is untouched, and without an overlap
  the store is unchanged.
\<close>

theorem resolveCharacterCollision_displacement:
  assumes "a \<noteq> b"
  shows "(let w' = resolveCharacterCollision cfg w a b;
              ax = v_x (position (w a)); bx = v_x (position (w b));
              push = (width cfg - \<bar>ax - bx\<bar>) / 2
          in if checkCharacterCollision cfg (w a) (w b)
             then (if ax < bx
                   then w' a = (w a)\<lparr>position := (position (w a))\<lparr>v_x := ax - push\<rparr>\<rparr> \<and>
                        w' b = (w b)\<lparr>position := (position (w b))\<lparr>v_x := bx + push\<rparr>\<rparr>
                   else w' a = (w a)\<lparr>position := (position (w a))\<lparr>v_x := ax + push\<rparr>\<rparr> \<and>
                        w' b = (w b)\<lparr>position := (position (w b))\<lparr>v_x := bx - push\<rparr>\<rparr>)
                  \<and> (\<forall>c. c \<noteq> a \<and> c \<noteq> b \<longrightarrow> w' c = w c)
             else w' = w)"
  using assms
  by (auto simp: resolveCharacterCollision_def Let_def shiftX_def getHurtbox_def min_def abs_if)

theorem resolveCharacterCollision_displacement_witness:
  "(0::nat) \<noteq> 1
   \<and> checkCharacterCollision exampleConfig
        (placeAt (placeAt exampleWorld 0 300) 1 320 0) (placeAt (placeAt exampleWorld 0 300) 1 320 1)
   \<and> v_x (position (resolveCharacterCollision exampleConfig
                       (placeAt (placeAt exampleWorld 0 300) 1 320) 0 1 0)) = 285
   \<and> v_x (position (resolveCharacterCollision exampleConfig
                       (placeAt (placeAt exampleWorld 0 300) 1 320) 0 1 1)) = 335"
  using resolveCharacterCollision_displacement
    [of 0 1 exampleConfig "placeAt (placeAt exampleWorld 0 300) 1 320"]
  by (simp add: placeAt_def exampleWorld_def exampleConfig_def newCharacter_def
      setOpponent_def IdleState_enter_def checkCharacterCollision_def checkAABB_def
      getHurtbox_def width_def height_def Let_def)

text \<open>
  C9. Two distinct Characters at the same x position with overlapping hurtboxes: one run
  of \<open>resolveCharacterCollision\<close> moves \<open>a\<close> right and \<open>b\<close> left by half the width each,
  which leaves the right edge of \<open>b\<close>'s hurtbox on the left edge of \<open>a\<close>'s; the strict test
  does not count that as a collision, so a second run changes nothing.
\<close>

theorem resolveCharacterCollision_same_x_stable:
  assumes "a \<noteq> b"
    and "v_x (position (w a)) = v_x (position (w b))"
    and "checkCharacterCollision cfg (w a) (w b)"
  shows "(let w' = resolveCharacterCollision cfg w a b;
              x = v_x (position (w a))
          in v_x (position (w' a)) = x + width cfg / 2
           \<and> v_x (position (w' b)) = x - width cfg / 2
           \<and> r_x (getHurtbox cfg (w' b)) + r_width (getHurtbox cfg (w' b))
               = r_x (getHurtbox cfg (w' a))
           \<and> \<not> checkCharacterCollision cfg (w' a) (w' b)
           \<and> resolveCharacterCollision cfg w' a b = w')"
  using assms
  by (auto simp: resolveCharacterCollision_def Let_def shiftX_def getHurtbox_def
      checkCharacterCollision_def checkAABB_def)

theorem resolveCharacterCollision_same_x_stable_witness:
  "(0::nat) \<noteq> 1
   \<and> v_x (position (placeAt (placeAt exampleWorld 0 300) 1 300 0))
       = v_x (position (placeAt (placeAt exampleWorld 0 300) 1 300 1))
   \<and> checkCharacterCollision exampleConfig
        (placeAt (placeAt exampleWorld 0 300) 1 300 0) (placeAt (placeAt exampleWorld 0 300) 1 300 1)
   \<and> v_x (position (resolveCharacterCollision exampleConfig
                       (placeAt (placeAt exampleWorld 0 300) 1 300) 0 1 0)) = 325
   \<and> v_x (position (resolveCharacterCollision exampleConfig
                       (placeAt (placeAt exampleWorld 0 300) 1 300) 0 1 1)) = 275"
  using resolveCharacterCollision_same_x_stable
    [of 0 1 "placeAt (placeAt exampleWorld 0 300) 1 300" exampleConfig]
  by (simp add: placeAt_def exampleWorld_def exampleConfig_def newCharacter_def
      setOpponent_def IdleState_enter_def checkCharacterCollision_def checkAABB_def
      getHurtbox_def width_def height_def Let_def)

section \<open>Motion during an attack\<close>

text \<open>
  C10. \<open>AttackState.update\<close> leaves the x position of the Character unchanged, for every
  \<open>deltaTime\<close>. Over one Attack activation, with any frame operations but collision
  resolution interleaved, the x position stays what it was; and the transition from Move
  into Attack leaves the horizontal velocity at zero.
\<close>

theorem attack_keeps_x:
  "v_x (position (AttackState_update cfg w a dt a)) = v_x (position (w a))
   \<and> (list_all (\<lambda>p. frameOp p \<and> \<not> isResolve p) ops \<longrightarrow>
        v_x (position (activation cfg w a ops a)) = v_x (position (w a)))
   \<and> (currentState c = Move \<longrightarrow> v_x (velocity (transitionTo cfg c Attack)) = 0)"
proof -
  have "v_x (position (AttackState_update cfg w a dt a)) = v_x (position (w a))"
    using AttackState_update_self [of cfg w a dt] by auto
  moreover have "currentState c = Move \<Longrightarrow> v_x (velocity (transitionTo cfg c Attack)) = 0"
    by (simp add: transitionTo_def char_defs split: option.splits)
  ultimately show ?thesis using activation_x by blast
qed

theorem attack_keeps_x_witness:
  "list_all (\<lambda>p. frameOp p \<and> \<not> isResolve p) [Update 0 (1 / 60), Update 1 (1 / 60), Update 0 (1 / 60)]
   \<and> currentState (duelWorld 0) = Attack
   \<and> v_x (position (duelWorld 0)) = 200
   \<and> v_x (position (activation exampleConfig duelWorld 0
                       [Update 0 (1 / 60), Update 1 (1 / 60), Update 0 (1 / 60)] 0)) = 200
   \<and> currentState (run exampleConfig exampleWorld
                     [MoveCommand DirRight True 0, Update 0 (1 / 60), Update 0 (1 / 60)] 0) = Move
   \<and> v_x (velocity (run exampleConfig exampleWorld
                     [MoveCommand DirRight True 0, Update 0 (1 / 60), Update 0 (1 / 60)] 0)) = 300
   \<and> v_x (velocity (transitionTo exampleConfig
                      (run exampleConfig exampleWorld
                         [MoveCommand DirRight True 0, Update 0 (1 / 60), Update 0 (1 / 60)] 0)
                      Attack)) = 0"
proof -
  have h: "list_all (\<lambda>p. frameOp p \<and> \<not> isResolve p) [Update 0 (1 / 60), Update 1 (1 / 60), Update 0 (1 / 60)]"
    by simp
  have e: "currentState (duelWorld 0) = Attack
           \<and> v_x (position (duelWorld 0)) = 200
           \<and> currentState (run exampleConfig exampleWorld
                     [MoveCommand DirRight True 0, Update 0 (1 / 60), Update 0 (1 / 60)] 0) = Move
           \<and> v_x (velocity (run exampleConfig exampleWorld
                     [MoveCommand DirRight True 0, Update 0 (1 / 60), Update 0 (1 / 60)] 0)) = 300"
    by code_simp
  from attack_keeps_x [of exampleConfig duelWorld 0 "1 / 60"
      "[Update 0 (1 / 60), Update 1 (1 / 60), Update 0 (1 / 60)]"
      "run exampleConfig exampleWorld [MoveCommand DirRight True 0, Update 0 (1 / 60), Update 0 (1 / 60)] 0"]
    h e
  show ?thesis by simp
qed

end
